theory Spec2Isabelle
  imports Main "HOL-Library.Word"
begin

section \<open>The Polkadot ledger connector: data model\<close>

text \<open>
  The theory embeds the class \<open>PluginLedgerConnectorPolkadot\<close> (the plugin source, 854 lines):
  \<open>transact\<close>, \<open>transactCactusKeychainRef\<close>, \<open>transactMnemonicString\<close>,
  \<open>transactSigned\<close>, \<open>deployContract\<close> and \<open>obtainTransactionInformation\<close>.

  The chain client, the keyring, the plugin registry and the metrics exporter are
  collaborators: the record \<open>env\<close> holds what each of them answers. A method of the class is
  a function of \<open>env\<close> and the request that returns the collaborator calls it made (a list
  of \<open>effect\<close>) and its outcome: \<open>Some (Inr r)\<close> when the returned promise is fulfilled with
  \<open>r\<close>, \<open>Some (Inl e)\<close> when it is rejected with \<open>e\<close>, \<open>None\<close> when it never settles.
\<close>

subsection \<open>Hashes and events\<close>

type_synonym Hash = "8 word list"

definition hexDigit :: "nat \<Rightarrow> char" where
  "hexDigit n = ''0123456789abcdef'' ! (n mod 16)"

text \<open>\<open>toHex()\<close> of a hash (u8aToHex of the chain client's utilities): the prefix \<open>0x\<close>, then two
  lower-case hexadecimal digits for each byte.\<close>

definition toHex :: "Hash \<Rightarrow> string" where
  "toHex h = ''0x'' @ concat (map (\<lambda>b. [hexDigit (unat b div 16), hexDigit (unat b mod 16)]) h)"

text \<open>\<open>isHex\<close> of the chain client's utilities: the prefix \<open>0x\<close>, then hexadecimal digits
  only, and an even length.\<close>

definition isHexDigit :: "char \<Rightarrow> bool" where
  "isHexDigit c = (c \<in> set ''0123456789abcdefABCDEF'')"

definition isHex :: "string \<Rightarrow> bool" where
  "isHex s = (take 2 s = ''0x'' \<and> list_all isHexDigit (drop 2 s) \<and> even (length s))"

text \<open>An event record of a block, \<open>{ event: { section, method } }\<close>.\<close>

datatype EventRecord = EventRecord (ev_section: string) (ev_method: string)

text \<open>The status of a submitted extrinsic, with the tag that \<open>type\<close> reads.\<close>

datatype ExtrinsicStatus =
    Future
  | Ready
  | Broadcast
  | InBlock Hash
  | Retracted Hash
  | FinalityTimeout Hash
  | Finalized Hash
  | Usurped Hash
  | Dropped
  | Invalid

fun isInBlock :: "ExtrinsicStatus \<Rightarrow> bool" where
  "isInBlock (InBlock h) = True"
| "isInBlock s = False"

fun isFinalized :: "ExtrinsicStatus \<Rightarrow> bool" where
  "isFinalized (Finalized h) = True"
| "isFinalized s = False"

fun status_type :: "ExtrinsicStatus \<Rightarrow> string" where
  "status_type Future = ''Future''"
| "status_type Ready = ''Ready''"
| "status_type Broadcast = ''Broadcast''"
| "status_type (InBlock h) = ''InBlock''"
| "status_type (Retracted h) = ''Retracted''"
| "status_type (FinalityTimeout h) = ''FinalityTimeout''"
| "status_type (Finalized h) = ''Finalized''"
| "status_type (Usurped h) = ''Usurped''"
| "status_type Dropped = ''Dropped''"
| "status_type Invalid = ''Invalid''"

subsection \<open>Thrown values\<close>

text \<open>
  What the code throws or rejects with. \<open>Str s\<close> is a bare string handed to \<open>reject\<close>; every
  other constructor is an \<open>Error\<close> whose message is the template of the source, with the
  interpolated values as arguments. The wrapping errors keep the inner exception they print.
\<close>

datatype thrown =
    Str string
  | External string
    \<comment> \<open>an error raised inside a collaborator (keyring, codec, registry, node client)\<close>
  | TypeError string
    \<comment> \<open>reading a property of \<open>undefined\<close>\<close>
  | ChecksFalsy string
    \<comment> \<open>\<open>Checks.truthy\<close> on a falsy value, with the subject of the check\<close>
  | ApiNotConnected
    \<comment> \<open>"The operation has failed because the API is not connected to Substrate Node"\<close>
  | ExpectedPreSigned
    \<comment> \<open>transact: "Expected pre-signed raw transaction since signing credential is specified as
        Web3SigningCredentialType.NONE"\<close>
  | UnrecognizedCredentialType
    \<comment> \<open>"Unrecognized Web3SigningCredentialType: ..."\<close>
  | ExtrinsicSuccessNotDetected "EventRecord list"
    \<comment> \<open>"Transaction Failed: The expected system.ExtrinsicSuccess event was not detected.
        events emitted are \$\{events\}"\<close>
  | TransactionFailed thrown
    \<comment> \<open>transactMnemonicString: "The transaction failed. InnerException: \$\{e\}"\<close>
  | NotSigned
    \<comment> \<open>transactSigned: "Transaction is not signed."\<close>
  | SignatureNotValid
    \<comment> \<open>transactSigned: "Transaction signature is not valid."\<close>
  | CannotConvert string string
    \<comment> \<open>the chain client, on reading \<open>asX\<close> of a status of another type:
        "Cannot convert '\$\{type\}' via \$\{asX\}"\<close>
  | NotSubmittedWithStatus string
    \<comment> \<open>"transaction not submitted with status: \$\{type\}"\<close>
  | SubmissionFailed thrown
    \<comment> \<open>transactSigned: "The transaction submission failed. InnerException: \$\{e\}"\<close>
  | CannotDeployPreSigned
    \<comment> \<open>deployContract: "Cannot deploy contract with pre-signed TX"\<close>
  | ModuleDispatchError string string "string list"
    \<comment> \<open>"\$\{section\}.\$\{name\}: \$\{docs.join(' ')\}"\<close>
  | OtherDispatchError string
    \<comment> \<open>\<open>dispatchError.toString()\<close>\<close>
  | DeploymentFailed thrown
    \<comment> \<open>deployContract: "The contract upload and deployment failed. InnerException: \$\{e\}"\<close>
  | ObtainInfoFailed thrown
    \<comment> \<open>"Obtaining info for this transaction has failed. InnerException: \$\{e\}"\<close>

subsection \<open>Promises\<close>

text \<open>
  A promise made by \<open>new Promise((resolve, reject) => ...)\<close>. It is settled once: \<open>resolve\<close>
  and \<open>reject\<close> act on a pending promise and do nothing on a settled one.
\<close>

datatype 'a promise = Pending | Fulfilled 'a | Rejected thrown

fun resolve :: "'a \<Rightarrow> 'a promise \<Rightarrow> 'a promise" where
  "resolve v Pending = Fulfilled v"
| "resolve v p = p"

fun reject :: "thrown \<Rightarrow> 'a promise \<Rightarrow> 'a promise" where
  "reject e Pending = Rejected e"
| "reject e p = p"

fun settled :: "'a promise \<Rightarrow> bool" where
  "settled Pending = False"
| "settled p = True"

subsection \<open>Requests and responses\<close>

datatype Web3SigningCredential =
    CactusKeychainRef (ref_keychainEntryKey: string) (ref_keychainId: string)
  | MnemonicString string
  | NoneCredential
  | OtherCredential string
    \<comment> \<open>a credential object whose \<open>type\<close> is none of the three tags\<close>

text \<open>The fields a cast \<open>web3SigningCredential as ...\<close> reads: \<open>undefined\<close> (here \<open>None\<close>)
  when the credential is of another variant.\<close>

fun mnemonic_of :: "Web3SigningCredential \<Rightarrow> string option" where
  "mnemonic_of (MnemonicString m) = Some m"
| "mnemonic_of c = None"

fun keychainId_of :: "Web3SigningCredential \<Rightarrow> string option" where
  "keychainId_of (CactusKeychainRef k i) = Some i"
| "keychainId_of c = None"

fun keychainEntryKey_of :: "Web3SigningCredential \<Rightarrow> string option" where
  "keychainEntryKey_of (CactusKeychainRef k i) = Some k"
| "keychainEntryKey_of c = None"

record TransactionConfig =
  transferSubmittable :: "string option"
  tc_to :: string
  tc_value :: int

record RunTransactionRequest =
  web3SigningCredential :: Web3SigningCredential
  transactionConfig :: TransactionConfig

record RunTransactionResponse =
  success :: bool
  txHash :: "string option"
  blockHash :: "string option"

text \<open>The value the inner promise of a submission is resolved with.\<close>

record TxResult =
  tx_success :: bool
  transactionHash :: string
  blockhash :: string

subsection \<open>Collaborators\<close>

datatype KeyringPair = KeyringPair string

datatype Call = Call string int

text \<open>A rehydrated transaction: whether it is signed, the bytes of its signature field (64
  zero bytes when it is not signed) and its encoding. \<open>signature.toHex()\<close> renders the bytes
  of the signature field.\<close>

datatype Extrinsic = Extrinsic (isSigned: bool) (signature: Hash) (encoded: string)

definition signature_toHex :: "Extrinsic \<Rightarrow> string" where
  "signature_toHex tx = toHex (signature tx)"

text \<open>A notification of \<open>signAndSend\<close>: \<open>{ events, status, txHash }\<close>.\<close>

datatype SubmittableResult =
  SubmittableResult (res_events: "EventRecord list") (res_status: ExtrinsicStatus) (res_txHash: Hash)

text \<open>A notification of \<open>rpc.author.submitAndWatchExtrinsic\<close>: the status, and the \<open>hash\<close>
  the callback reads on it.\<close>

datatype StatusNotification = StatusNotification (n_status: ExtrinsicStatus) (n_hash: Hash)

text \<open>A keychain plugin: \<open>get(key)\<close> answers a secret or throws.\<close>

type_synonym Keychain = "string option \<Rightarrow> thrown + string"

subsection \<open>Contract deployment\<close>

record WeightV2 =
  refTime :: int
  proofSize :: int

record DeployContractInkRequest =
  dc_web3SigningCredential :: Web3SigningCredential
  wasm :: string
  metadata :: string
  gasLimit :: WeightV2
  storageDepositLimit :: "int option"
  salt :: "string option"
  balance :: "int option"
  params :: "string list option"

text \<open>\<open>{ success, address }\<close>: the response of \<open>deployContract\<close>, and the value its
  inner promise is resolved with.\<close>

record DeployContractInkResponse =
  dc_success :: bool
  dc_address :: "string option"

text \<open>The first argument of a constructor call of the code blueprint.\<close>

record InstantiateOptions =
  opt_gasLimit :: WeightV2
  opt_storageDepositLimit :: "int option"
  opt_salt :: "string option"
  opt_value :: "int option"

text \<open>An argument of a call: a parameter of the request, or \<open>undefined\<close>.\<close>

datatype js_arg = Undefined | Arg string

datatype AbiMessage = AbiMessage (abi_method: string)

datatype Abi = Abi (constructors: "AbiMessage list")

datatype CodePromise = CodePromise Abi string

datatype SubmittableExtrinsic = SubmittableExtrinsic string

text \<open>A dispatch error as the callback renders it: a module error by the section, name and
  docs that \<open>registry.findMetaError\<close> decodes, any other by \<open>toString()\<close>.\<close>

datatype DispatchError = ModuleError string string "string list" | OtherError string

text \<open>A notification of the deployment's \<open>signAndSend\<close>: \<open>{ contract, status, dispatchError }\<close>,
  the contract by what \<open>contract.address.toString()\<close> reads (\<open>None\<close>: no contract).\<close>

datatype CodeSubmittableResult =
  CodeSubmittableResult (cr_contract: "string option") (cr_status: ExtrinsicStatus)
    (cr_dispatchError: "DispatchError option")

subsection \<open>Transaction information\<close>

record TransactionInfoRequest =
  accountAddress :: "string option"
    \<comment> \<open>what \<open>req.accountAddress.address\<close> reads\<close>
  transactionExpiration :: "int option"

datatype Header = Header (header_number: nat) (header_hash: Hash)

text \<open>The era descriptor: a mortal era of a period and a phase.\<close>

datatype ExtrinsicEra = MortalEra (era_period: nat) (era_phase: nat)

text \<open>The period the codec gives a mortal era made from \<open>{ current, period }\<close>:
  \<open>min(max(2 ** ceil(log2(period)), 4), 1 << 16)\<close>, the least power of two that is not below
  the period, and not below 4 nor above 65536.\<close>

definition calPeriod :: "int \<Rightarrow> nat" where
  "calPeriod period =
     (if period \<le> 4 then 4
      else if period \<le> 8 then 8
      else if period \<le> 16 then 16
      else if period \<le> 32 then 32
      else if period \<le> 64 then 64
      else if period \<le> 128 then 128
      else if period \<le> 256 then 256
      else if period \<le> 512 then 512
      else if period \<le> 1024 then 1024
      else if period \<le> 2048 then 2048
      else if period \<le> 4096 then 4096
      else if period \<le> 8192 then 8192
      else if period \<le> 16384 then 16384
      else if period \<le> 32768 then 32768
      else 65536)"

text \<open>\<open>createType("ExtrinsicEra", { current, period })\<close>: the codec throws on a negative
  period (its logarithm is not a number); otherwise the era has the calculated period and
  the phase \<open>current % calPeriod\<close>.\<close>

definition createType_ExtrinsicEra :: "nat \<Rightarrow> int \<Rightarrow> thrown + ExtrinsicEra" where
  "createType_ExtrinsicEra current period =
     (if period < 0 then Inl (External ''ExtrinsicEra'')
      else Inr (MortalEra (calPeriod period) (current mod calPeriod period)))"

record SignerOptions =
  info_nonce :: nat
  info_blockHash :: Hash
  info_era :: ExtrinsicEra

record ResponseContainer =
  response_data :: SignerOptions
  succeeded :: bool
  message :: string

record TransactionInfoResponse =
  responseContainer :: ResponseContainer

subsection \<open>Effects and the environment\<close>

text \<open>Collaborator calls, in the order a method makes them. \<open>Uncaught e\<close> is an error thrown
  inside a notification callback: it leaves through the subscription that called the
  callback, not through the promise the caller awaits.\<close>

datatype effect =
    FindOneByKeychainId "string option"
  | KeychainGet "string option"
  | CreateFromUri "string option"
  | SignAndSend Call KeyringPair
  | SubmitAndWatchExtrinsic Extrinsic
  | Uncaught thrown
  | AddCurrentTransaction
  | ContractTx string InstantiateOptions "js_arg list"
    \<comment> \<open>\<open>contractCode.tx[method](options, ...args)\<close>\<close>
  | DeploySignAndSend SubmittableExtrinsic KeyringPair
  | GetBlock
  | DeriveBalancesAccount "string option"

record env =
  api :: bool
    \<comment> \<open>\<open>this.api\<close> is defined\<close>
  createFromUri :: "string option \<Rightarrow> thrown + KeyringPair"
  findOneByKeychainId :: "string option \<Rightarrow> thrown + Keychain option"
    \<comment> \<open>the registry throws, answers nothing, or answers a keychain plugin\<close>
  balances_transfer :: "string \<Rightarrow> int \<Rightarrow> thrown + Call"
  signAndSend :: "Call \<Rightarrow> KeyringPair \<Rightarrow> SubmittableResult list"
    \<comment> \<open>the notifications the node delivers for a signed submission, in arrival order\<close>
  api_tx :: "string \<Rightarrow> thrown + Extrinsic"
  submitAndWatchExtrinsic :: "Extrinsic \<Rightarrow> StatusNotification list"
    \<comment> \<open>the notifications the node delivers for a raw submission, in arrival order\<close>
  newAbi :: "string \<Rightarrow> thrown + Abi"
  newCodePromise :: "Abi \<Rightarrow> string \<Rightarrow> thrown + CodePromise"
  createType_WeightV2 :: "int \<Rightarrow> int \<Rightarrow> thrown + WeightV2"
    \<comment> \<open>\<open>registry.createType("WeightV2", { refTime, proofSize })\<close>\<close>
  code_tx ::
    "CodePromise \<Rightarrow> string \<Rightarrow> InstantiateOptions \<Rightarrow> js_arg list
       \<Rightarrow> thrown + SubmittableExtrinsic option"
    \<comment> \<open>the constructor call throws, answers nothing, or answers the instantiate call\<close>
  deploy_signAndSend :: "SubmittableExtrinsic \<Rightarrow> KeyringPair \<Rightarrow> CodeSubmittableResult list"
  getBlock :: "thrown + Header"
  accountNonce :: "string option \<Rightarrow> thrown + nat"

type_synonym 'a run = "effect list \<times> (thrown + 'a) option"

section \<open>Submission\<close>

subsection \<open>Delivering notifications to a callback\<close>

text \<open>
  A callback takes a notification and the promise as it stands; it answers the promise as
  it leaves it and the error it throws, if any. \<open>deliver\<close> calls it on each notification
  in arrival order.
\<close>

fun deliver ::
  "('n \<Rightarrow> 'a promise \<Rightarrow> 'a promise \<times> thrown option) \<Rightarrow> 'n list \<Rightarrow> 'a promise
     \<Rightarrow> 'a promise \<times> effect list" where
  "deliver cb [] p = (p, [])"
| "deliver cb (n # ns) p =
     (case cb n p of (p', t) \<Rightarrow>
        (case deliver cb ns p' of (p'', es) \<Rightarrow>
           (p'', (case t of None \<Rightarrow> [] | Some e \<Rightarrow> [Uncaught e]) @ es)))"

subsection \<open>transactMnemonicString\<close>

text \<open>The callback handed to \<open>signAndSend\<close> (lines 461 to 482).\<close>

definition isExtrinsicSuccess :: "EventRecord \<Rightarrow> bool" where
  "isExtrinsicSuccess e = (ev_section e = ''system'' \<and> ev_method e = ''ExtrinsicSuccess'')"

definition transactMnemonicString_callback ::
  "SubmittableResult \<Rightarrow> TxResult promise \<Rightarrow> TxResult promise \<times> thrown option" where
  "transactMnemonicString_callback n p =
     (case res_status n of
        InBlock h \<Rightarrow>
          (case find isExtrinsicSuccess (res_events n) of
             Some successEvent \<Rightarrow>
               (resolve \<lparr>tx_success = True,
                         transactionHash = toHex (res_txHash n),
                         blockhash = toHex h\<rparr> p, None)
           | None \<Rightarrow>
               (reject (Str ''transaction not successful'') p,
                Some (ExtrinsicSuccessNotDetected (res_events n))))
      | _ \<Rightarrow> (p, None))"

definition transactMnemonicString ::
  "env \<Rightarrow> RunTransactionRequest \<Rightarrow> RunTransactionResponse run" where
  "transactMnemonicString e req =
     (if \<not> api e then ([], Some (Inl ApiNotConnected))
      else
        let mnemonic = mnemonic_of (web3SigningCredential req) in
        (case createFromUri e mnemonic of
           Inl x \<Rightarrow> ([CreateFromUri mnemonic], Some (Inl (TransactionFailed x)))
         | Inr accountPair \<Rightarrow>
             (case balances_transfer e (tc_to (transactionConfig req))
                                      (tc_value (transactionConfig req)) of
                Inl x \<Rightarrow> ([CreateFromUri mnemonic], Some (Inl (TransactionFailed x)))
              | Inr call \<Rightarrow>
                  (case deliver transactMnemonicString_callback
                          (signAndSend e call accountPair) Pending of
                     (p, es) \<Rightarrow>
                       ([CreateFromUri mnemonic, SignAndSend call accountPair] @ es,
                        (case p of
                           Pending \<Rightarrow> None
                         | Rejected x \<Rightarrow> Some (Inl (TransactionFailed x))
                         | Fulfilled r \<Rightarrow>
                             Some (Inr \<lparr>success = tx_success r,
                                        txHash = Some (transactionHash r),
                                        blockHash = Some (blockhash r)\<rparr>)))))))"

subsection \<open>transactCactusKeychainRef\<close>

definition transactCactusKeychainRef ::
  "env \<Rightarrow> RunTransactionRequest \<Rightarrow> RunTransactionResponse run" where
  "transactCactusKeychainRef e req =
     (let keychainEntryKey = keychainEntryKey_of (web3SigningCredential req);
          keychainId = keychainId_of (web3SigningCredential req)
      in case findOneByKeychainId e keychainId of
           Inl x \<Rightarrow> ([FindOneByKeychainId keychainId], Some (Inl x))
         | Inr None \<Rightarrow>
             ([FindOneByKeychainId keychainId], Some (Inl (ChecksFalsy ''keychain for ID'')))
         | Inr (Some keychainPlugin) \<Rightarrow>
             (case keychainPlugin keychainEntryKey of
                Inl x \<Rightarrow>
                  ([FindOneByKeychainId keychainId, KeychainGet keychainEntryKey], Some (Inl x))
              | Inr mnemonic \<Rightarrow>
                  (case transactMnemonicString e
                          \<lparr>web3SigningCredential = MnemonicString mnemonic,
                           transactionConfig = transactionConfig req\<rparr> of
                     (es, out) \<Rightarrow>
                       ([FindOneByKeychainId keychainId, KeychainGet keychainEntryKey] @ es,
                        out))))"

subsection \<open>transactSigned\<close>

text \<open>\<open>asInBlock\<close> of a status: the chain client's getter answers the hash of an "in block"
  status and throws on a status of any other type.\<close>

definition asInBlock :: "ExtrinsicStatus \<Rightarrow> thrown + Hash" where
  "asInBlock s =
     (case s of
        InBlock h \<Rightarrow> Inr h
      | _ \<Rightarrow> Inl (CannotConvert (status_type s) ''asInBlock''))"

text \<open>The callback handed to \<open>submitAndWatchExtrinsic\<close> (lines 537 to 548). Its parameter
  pattern \<open>{ isInBlock, hash, asInBlock, type }\<close> reads the four properties of the status
  before the body runs: where reading \<open>asInBlock\<close> throws, the callback throws and the
  promise is left as it stands.\<close>

definition transactSigned_callback ::
  "StatusNotification \<Rightarrow> TxResult promise \<Rightarrow> TxResult promise \<times> thrown option" where
  "transactSigned_callback n p =
     (case asInBlock (n_status n) of
        Inl x \<Rightarrow> (p, Some x)
      | Inr h \<Rightarrow>
          if isInBlock (n_status n) then
            (resolve \<lparr>tx_success = True,
                      transactionHash = toHex (n_hash n),
                      blockhash = toHex h\<rparr> p, None)
          else
            (reject (Str ''transaction not successful'') p,
             Some (NotSubmittedWithStatus (status_type (n_status n)))))"

definition truthy :: "string option \<Rightarrow> bool" where
  "truthy s = (case s of None \<Rightarrow> False | Some v \<Rightarrow> v \<noteq> [])"

definition transactSigned ::
  "env \<Rightarrow> RunTransactionRequest \<Rightarrow> RunTransactionResponse run" where
  "transactSigned e req =
     (case transferSubmittable (transactionConfig req) of
        None \<Rightarrow> ([], Some (Inl (ChecksFalsy ''req.transactionConfig.transferSubmittable'')))
      | Some signedTx \<Rightarrow>
          if signedTx = [] then
            ([], Some (Inl (ChecksFalsy ''req.transactionConfig.transferSubmittable'')))
          else if \<not> api e then ([], Some (Inl ApiNotConnected))
          else
            (case api_tx e signedTx of
               Inl x \<Rightarrow> ([], Some (Inl x))
             | Inr deserializedTransaction \<Rightarrow>
                 let signature = signature_toHex deserializedTransaction in
                 if signature = [] then ([], Some (Inl NotSigned))
                 else if \<not> isHex signature then ([], Some (Inl SignatureNotValid))
                 else
                   (case deliver transactSigned_callback
                           (submitAndWatchExtrinsic e deserializedTransaction) Pending of
                      (p, es) \<Rightarrow>
                        (case p of
                           Pending \<Rightarrow>
                             (SubmitAndWatchExtrinsic deserializedTransaction # es, None)
                         | Rejected x \<Rightarrow>
                             (SubmitAndWatchExtrinsic deserializedTransaction # es,
                              Some (Inl (SubmissionFailed x)))
                         | Fulfilled r \<Rightarrow>
                             (SubmitAndWatchExtrinsic deserializedTransaction # es
                                @ [AddCurrentTransaction],
                              Some (Inr \<lparr>success = True,
                                         txHash = Some (transactionHash r),
                                         blockHash = Some (blockhash r)\<rparr>))))))"

subsection \<open>transact\<close>

definition transact :: "env \<Rightarrow> RunTransactionRequest \<Rightarrow> RunTransactionResponse run" where
  "transact e req =
     (case web3SigningCredential req of
        CactusKeychainRef k i \<Rightarrow> transactCactusKeychainRef e req
      | MnemonicString m \<Rightarrow> transactMnemonicString e req
      | NoneCredential \<Rightarrow>
          if truthy (transferSubmittable (transactionConfig req)) then transactSigned e req
          else ([], Some (Inl ExpectedPreSigned))
      | OtherCredential t \<Rightarrow> ([], Some (Inl UnrecognizedCredentialType)))"

section \<open>Contract deployment\<close>

text \<open>Modelled from the spec: the type guards \<open>isWeb3SigningCredentialNone\<close>,
  \<open>isWeb3SigningCredentialMnemonicString\<close> and \<open>isWeb3SigningCredentialCactusRef\<close> of
  the module model-type-guards are not among the sources. The credential is a tagged union
  of which exactly one variant is present, and each guard holds on its variant.\<close>

fun isWeb3SigningCredentialNone :: "Web3SigningCredential \<Rightarrow> bool" where
  "isWeb3SigningCredentialNone NoneCredential = True"
| "isWeb3SigningCredentialNone c = False"

fun isWeb3SigningCredentialMnemonicString :: "Web3SigningCredential \<Rightarrow> bool" where
  "isWeb3SigningCredentialMnemonicString (MnemonicString m) = True"
| "isWeb3SigningCredentialMnemonicString c = False"

fun isWeb3SigningCredentialCactusRef :: "Web3SigningCredential \<Rightarrow> bool" where
  "isWeb3SigningCredentialCactusRef (CactusKeychainRef k i) = True"
| "isWeb3SigningCredentialCactusRef c = False"

text \<open>Lines 581 to 606: the mnemonic of the credential, read from the request or looked up
  in the keychain.\<close>

definition deploy_mnemonic ::
  "env \<Rightarrow> Web3SigningCredential \<Rightarrow> effect list \<times> (thrown + string option)" where
  "deploy_mnemonic e c =
     (if isWeb3SigningCredentialMnemonicString c then ([], Inr (mnemonic_of c))
      else if isWeb3SigningCredentialCactusRef c then
        (let keychainEntryKey = keychainEntryKey_of c; keychainId = keychainId_of c
         in case findOneByKeychainId e keychainId of
              Inl x \<Rightarrow> ([FindOneByKeychainId keychainId], Inl x)
            | Inr None \<Rightarrow>
                ([FindOneByKeychainId keychainId], Inl (ChecksFalsy ''keychain for ID''))
            | Inr (Some keychainPlugin) \<Rightarrow>
                ([FindOneByKeychainId keychainId, KeychainGet keychainEntryKey],
                 (case keychainPlugin keychainEntryKey of
                    Inl x \<Rightarrow> Inl x
                  | Inr mnemonic \<Rightarrow> Inr (Some mnemonic))))
      else ([], Inl UnrecognizedCredentialType))"

text \<open>The callback handed to the deployment's \<open>signAndSend\<close> (lines 656 to 678). It also
  assigns the method's variable \<open>address\<close>; the method overwrites that variable with the
  address the promise was resolved with before it reads it.\<close>

definition deployContract_callback ::
  "CodeSubmittableResult \<Rightarrow> DeployContractInkResponse promise
     \<Rightarrow> DeployContractInkResponse promise \<times> thrown option" where
  "deployContract_callback n p =
     (if isInBlock (cr_status n) \<or> isFinalized (cr_status n) then
        (case cr_dispatchError n of
           Some dispatchError \<Rightarrow>
             (reject (Str ''deployment not successful'') p,
              Some (case dispatchError of
                      ModuleError sec name docs \<Rightarrow> ModuleDispatchError sec name docs
                    | OtherError t \<Rightarrow> OtherDispatchError t))
         | None \<Rightarrow>
             (case cr_contract n of
                None \<Rightarrow> (p, Some (TypeError ''contract.address''))
              | Some address \<Rightarrow>
                  (resolve \<lparr>dc_success = True, dc_address = Some address\<rparr> p, None)))
      else (p, None))"

text \<open>Lines 626 to 644: the arguments after the options, the parameters of the request or
  the single \<open>undefined\<close>.\<close>

definition constructor_args :: "string list option \<Rightarrow> js_arg list" where
  "constructor_args ps =
     (case ps of
        None \<Rightarrow> [Undefined]
      | Some xs \<Rightarrow> if length xs > 0 then map Arg xs else [Undefined])"

definition instantiate_options ::
  "WeightV2 \<Rightarrow> DeployContractInkRequest \<Rightarrow> InstantiateOptions" where
  "instantiate_options gas req =
     \<lparr>opt_gasLimit = gas,
      opt_storageDepositLimit = storageDepositLimit req,
      opt_salt = salt req,
      opt_value = balance req\<rparr>"

definition deployContract ::
  "env \<Rightarrow> DeployContractInkRequest \<Rightarrow> DeployContractInkResponse run" where
  "deployContract e req =
     (if \<not> api e then ([], Some (Inl ApiNotConnected))
      else if isWeb3SigningCredentialNone (dc_web3SigningCredential req) then
        ([], Some (Inl CannotDeployPreSigned))
      else
        (case deploy_mnemonic e (dc_web3SigningCredential req) of
           (es0, Inl x) \<Rightarrow> (es0, Some (Inl x))
         | (es0, Inr mnemonic) \<Rightarrow>
        (case newAbi e (metadata req) of
           Inl x \<Rightarrow> (es0, Some (Inl x))
         | Inr contractAbi \<Rightarrow>
        (case newCodePromise e contractAbi (wasm req) of
           Inl x \<Rightarrow> (es0, Some (Inl x))
         | Inr contractCode \<Rightarrow>
        (case createType_WeightV2 e (refTime (gasLimit req)) (proofSize (gasLimit req)) of
           Inl x \<Rightarrow> (es0, Some (Inl x))
         | Inr gas \<Rightarrow>
        (case createFromUri e mnemonic of
           Inl x \<Rightarrow> (es0 @ [CreateFromUri mnemonic], Some (Inl (DeploymentFailed x)))
         | Inr accountPair \<Rightarrow>
        (case constructors contractAbi of
           [] \<Rightarrow>
             (es0 @ [CreateFromUri mnemonic],
              Some (Inl (DeploymentFailed (TypeError ''contractAbi.constructors[0].method''))))
         | c # cs \<Rightarrow>
        (case code_tx e contractCode (abi_method c) (instantiate_options gas req)
                (constructor_args (params req)) of
           Inl x \<Rightarrow>
             (es0 @ [CreateFromUri mnemonic,
                     ContractTx (abi_method c) (instantiate_options gas req)
                       (constructor_args (params req))],
              Some (Inl (DeploymentFailed x)))
         | Inr None \<Rightarrow>
             (es0 @ [CreateFromUri mnemonic,
                     ContractTx (abi_method c) (instantiate_options gas req)
                       (constructor_args (params req)),
                     AddCurrentTransaction],
              Some (Inr \<lparr>dc_success = False, dc_address = None\<rparr>))
         | Inr (Some tx) \<Rightarrow>
        (case deliver deployContract_callback (deploy_signAndSend e tx accountPair) Pending of
           (p, es) \<Rightarrow>
             (es0 @ [CreateFromUri mnemonic,
                     ContractTx (abi_method c) (instantiate_options gas req)
                       (constructor_args (params req)),
                     DeploySignAndSend tx accountPair] @ es
                  @ (case p of
                       Fulfilled r \<Rightarrow>
                         if truthy (dc_address r) then [] else [AddCurrentTransaction]
                     | _ \<Rightarrow> []),
              (case p of
                 Pending \<Rightarrow> None
               | Rejected x \<Rightarrow> Some (Inl (DeploymentFailed x))
               | Fulfilled r \<Rightarrow>
                   Some (Inr \<lparr>dc_success = dc_success r, dc_address = dc_address r\<rparr>))))))))))))"

section \<open>Transaction information\<close>

text \<open>\<open>(req.transactionExpiration as number) || 50\<close>: the number of the request, or 50 when it
  is absent or zero. Numbers are integers here.\<close>

definition expiration_or_default :: "int option \<Rightarrow> int" where
  "expiration_or_default w = (case w of None \<Rightarrow> 50 | Some n \<Rightarrow> if n = 0 then 50 else n)"

definition obtainTransactionInformation ::
  "env \<Rightarrow> TransactionInfoRequest \<Rightarrow> TransactionInfoResponse run" where
  "obtainTransactionInformation e req =
     (if api e then
        (let transactionExpiration = expiration_or_default (transactionExpiration req)
         in case getBlock e of
              Inl x \<Rightarrow> ([GetBlock], Some (Inl (ObtainInfoFailed x)))
            | Inr signedBlock \<Rightarrow>
                (case accountNonce e (accountAddress req) of
                   Inl x \<Rightarrow>
                     ([GetBlock, DeriveBalancesAccount (accountAddress req)],
                      Some (Inl (ObtainInfoFailed x)))
                 | Inr nonce \<Rightarrow>
                     (case createType_ExtrinsicEra (header_number signedBlock)
                             transactionExpiration of
                        Inl x \<Rightarrow>
                          ([GetBlock, DeriveBalancesAccount (accountAddress req)],
                           Some (Inl (ObtainInfoFailed x)))
                      | Inr era \<Rightarrow>
                          ([GetBlock, DeriveBalancesAccount (accountAddress req)],
                           Some (Inr \<lparr>responseContainer =
                             \<lparr>response_data =
                                \<lparr>info_nonce = nonce,
                                 info_blockHash = header_hash signedBlock,
                                 info_era = era\<rparr>,
                              succeeded = True,
                              message = ''obtainTransactionInformation''\<rparr>\<rparr>)))))
      else ([], Some (Inl (ObtainInfoFailed ApiNotConnected))))"

text \<open>The response with its era left out: the nonce and the block hash.\<close>

definition without_era :: "TransactionInfoResponse run \<Rightarrow> effect list \<times> (thrown + nat \<times> Hash) option" where
  "without_era r =
     (fst r,
      map_option
        (map_sum id (\<lambda>resp. (info_nonce (response_data (responseContainer resp)),
                              info_blockHash (response_data (responseContainer resp)))))
        (snd r))"

definition era_of :: "TransactionInfoResponse run \<Rightarrow> ExtrinsicEra option" where
  "era_of r =
     (case snd r of
        Some (Inr resp) \<Rightarrow> Some (info_era (response_data (responseContainer resp)))
      | _ \<Rightarrow> None)"

section \<open>Invariant of the submission promise\<close>

text \<open>A promise of a submission that is fulfilled holds two hashes that are not empty.\<close>

definition hashes_present :: "TxResult promise \<Rightarrow> bool" where
  "hashes_present p =
     (case p of
        Fulfilled r \<Rightarrow> transactionHash r \<noteq> [] \<and> blockhash r \<noteq> []
      | _ \<Rightarrow> True)"

section \<open>A test environment\<close>

text \<open>A connected plugin. Its node reports a submission as ready, then as included in a
  block, with a successful extrinsic, and then as finalized, and refuses a raw transaction that is not signed
  without any notification. Its registry holds the keychain \<open>kc1\<close> with the entry \<open>k1\<close> and the secret
  \<open>//Bob\<close>; the ABI it parses has two constructors.\<close>

definition test_keychain :: Keychain where
  "test_keychain key = (if key = Some ''k1'' then Inr ''//Bob'' else Inl (External ''not found''))"

definition unsigned_signature :: Hash where
  "unsigned_signature = replicate 64 0"

definition test_signature :: Hash where
  "test_signature = replicate 64 171"

definition test_env :: env where
  "test_env =
     \<lparr>api = True,
      createFromUri = (\<lambda>m. case m of None \<Rightarrow> Inl (TypeError ''uri'') | Some u \<Rightarrow> Inr (KeyringPair u)),
      findOneByKeychainId = (\<lambda>i. if i = Some ''kc1'' then Inr (Some test_keychain) else Inr None),
      balances_transfer = (\<lambda>a v. Inr (Call a v)),
      signAndSend = (\<lambda>c k.
        [SubmittableResult [] Ready [7],
         SubmittableResult [EventRecord ''balances'' ''Transfer'',
                            EventRecord ''system'' ''ExtrinsicSuccess''] (InBlock [1, 2]) [7],
         SubmittableResult [] (Finalized [1, 2]) [7]]),
      api_tx = (\<lambda>s. if s = ''0x2d02'' then Inr (Extrinsic True test_signature s)
                      else Inr (Extrinsic False unsigned_signature s)),
      submitAndWatchExtrinsic = (\<lambda>x.
        if isSigned x
        then [StatusNotification Ready [8], StatusNotification (InBlock [1, 2]) [9],
              StatusNotification (Finalized [1, 2]) [10]]
        else []),
      newAbi = (\<lambda>m. Inr (Abi [AbiMessage ''new'', AbiMessage ''default''])),
      newCodePromise = (\<lambda>a w. Inr (CodePromise a w)),
      createType_WeightV2 = (\<lambda>r p.
        if r < 0 \<or> p < 0 then Inl (External ''WeightV2'')
        else Inr \<lparr>refTime = r, proofSize = p\<rparr>),
      code_tx = (\<lambda>c m opts args. Inr (Some (SubmittableExtrinsic m))),
      deploy_signAndSend = (\<lambda>t k.
        [CodeSubmittableResult None Ready None,
         CodeSubmittableResult (Some ''5Contract'') (InBlock [3]) None]),
      getBlock = Inr (Header 12 [4]),
      accountNonce = (\<lambda>a. Inr 3)\<rparr>"

definition test_config :: TransactionConfig where
  "test_config = \<lparr>transferSubmittable = None, tc_to = ''5Bob'', tc_value = 30\<rparr>"

definition test_request :: "Web3SigningCredential \<Rightarrow> RunTransactionRequest" where
  "test_request c = \<lparr>web3SigningCredential = c, transactionConfig = test_config\<rparr>"

definition test_signed :: RunTransactionRequest where
  "test_signed =
     \<lparr>web3SigningCredential = NoneCredential,
      transactionConfig = \<lparr>transferSubmittable = Some ''0x2d02'', tc_to = [], tc_value = 0\<rparr>\<rparr>"

text \<open>A raw submission of a transaction that nobody signed.\<close>

definition test_unsigned :: RunTransactionRequest where
  "test_unsigned =
     \<lparr>web3SigningCredential = NoneCredential,
      transactionConfig = \<lparr>transferSubmittable = Some ''0x2c01'', tc_to = [], tc_value = 0\<rparr>\<rparr>"

definition test_deploy :: "Web3SigningCredential \<Rightarrow> string list option \<Rightarrow> DeployContractInkRequest" where
  "test_deploy c ps =
     \<lparr>dc_web3SigningCredential = c, wasm = ''AGFzbQ=='', metadata = ''{}'',
      gasLimit = \<lparr>refTime = 6219235328, proofSize = 131072\<rparr>,
      storageDepositLimit = None, salt = Some [], balance = None, params = ps\<rparr>"

section \<open>Properties\<close>

subsection \<open>Hexadecimal strings\<close>

lemma toHex_nonempty: "toHex h \<noteq> []"
  by (simp add: toHex_def)

lemma hexDigit_isHexDigit: "isHexDigit (hexDigit n)"
proof -
  have "n mod 16 < length ''0123456789abcdef''" by simp
  then have "''0123456789abcdef'' ! (n mod 16) \<in> set ''0123456789abcdef''"
    by (rule nth_mem)
  then show ?thesis
    unfolding hexDigit_def isHexDigit_def by auto
qed

lemma toHex_digits:
  "list_all isHexDigit (concat (map (\<lambda>b. [hexDigit (unat b div 16), hexDigit (unat b mod 16)]) h))"
  by (induction h) (simp_all add: hexDigit_isHexDigit)

lemma toHex_length:
  "length (concat (map (\<lambda>b. [hexDigit (unat b div 16), hexDigit (unat b mod 16)]) h)) =
     2 * length h"
  by (induction h) simp_all

text \<open>Whatever the bytes of a signature field are, their rendering is not empty and is
  hexadecimal.\<close>

lemma isHex_toHex: "isHex (toHex h)"
  by (simp add: isHex_def toHex_def toHex_digits toHex_length)

subsection \<open>Promises and delivery\<close>

lemma deliver_effects_Uncaught:
  "x \<in> set (snd (deliver cb ns p)) \<Longrightarrow> \<exists>t. x = Uncaught t"
proof (induction ns arbitrary: p)
  case Nil
  then show ?case by simp
next
  case (Cons n ns)
  obtain p' t where c: "cb n p = (p', t)" by (cases "cb n p")
  obtain p'' es where d: "deliver cb ns p' = (p'', es)" by (cases "deliver cb ns p'")
  from Cons.prems c d have "x \<in> set (case t of None \<Rightarrow> [] | Some e \<Rightarrow> [Uncaught e]) \<or> x \<in> set es"
    by simp
  then show ?case
  proof
    assume "x \<in> set (case t of None \<Rightarrow> [] | Some e \<Rightarrow> [Uncaught e])"
    then show ?thesis by (cases t) auto
  next
    assume "x \<in> set es"
    with d Cons.IH [of p'] show ?thesis by simp
  qed
qed

lemma deliver_invariant:
  assumes step: "\<And>n p. I p \<Longrightarrow> I (fst (cb n p))" and init: "I p"
  shows "I (fst (deliver cb ns p))"
  using init
proof (induction ns arbitrary: p)
  case Nil
  then show ?case by simp
next
  case (Cons n ns)
  obtain p' t where c: "cb n p = (p', t)" by (cases "cb n p")
  obtain p'' es where d: "deliver cb ns p' = (p'', es)" by (cases "deliver cb ns p'")
  have "I p'" using step [OF Cons.prems, of n] c by simp
  from Cons.IH [OF this] d have "I p''" by simp
  with c d show ?case by simp
qed

lemma deliver_settled:
  assumes keep: "\<And>n q. settled q \<Longrightarrow> fst (cb n q) = q" and "settled p"
  shows "fst (deliver cb ns p) = p"
  using assms(2)
proof (induction ns)
  case Nil
  then show ?case by simp
next
  case (Cons n ns)
  obtain p' t where c: "cb n p = (p', t)" by (cases "cb n p")
  obtain p'' es where d: "deliver cb ns p' = (p'', es)" by (cases "deliver cb ns p'")
  have "p' = p" using keep [OF Cons.prems, of n] c by simp
  with Cons.IH [OF Cons.prems] c d show ?case by simp
qed

lemma resolve_settled: "settled p \<Longrightarrow> resolve v p = p"
  by (cases p) simp_all

lemma reject_settled: "settled p \<Longrightarrow> reject x p = p"
  by (cases p) simp_all

lemma transactMnemonicString_callback_settled:
  "settled p \<Longrightarrow> fst (transactMnemonicString_callback n p) = p"
  by (simp add: transactMnemonicString_callback_def resolve_settled reject_settled
      split: ExtrinsicStatus.splits option.splits)
lemma transactSigned_callback_settled:
  "settled p \<Longrightarrow> fst (transactSigned_callback n p) = p"
  by (simp add: transactSigned_callback_def resolve_settled reject_settled
      split: sum.splits)

lemma deployContract_callback_settled:
  "settled p \<Longrightarrow> fst (deployContract_callback n p) = p"
  by (simp add: deployContract_callback_def resolve_settled reject_settled
      split: option.splits)

lemma transactMnemonicString_callback_ignores:
  "\<not> isInBlock (res_status n) \<Longrightarrow> transactMnemonicString_callback n p = (p, None)"
  by (cases "res_status n") (simp_all add: transactMnemonicString_callback_def)

lemma transactSigned_callback_ignores:
  "\<not> isInBlock (n_status n) \<Longrightarrow> fst (transactSigned_callback n p) = p"
  by (cases "n_status n") (simp_all add: transactSigned_callback_def asInBlock_def)

lemma transactSigned_callback_inBlock:
  "n_status n = InBlock h \<Longrightarrow>
   transactSigned_callback n Pending =
     (Fulfilled \<lparr>tx_success = True, transactionHash = toHex (n_hash n), blockhash = toHex h\<rparr>,
      None)"
  by (simp add: transactSigned_callback_def asInBlock_def)

lemma deliver_ignored:
  "\<forall>n \<in> set pre. fst (cb n p) = p \<Longrightarrow> fst (deliver cb (pre @ ns) p) = fst (deliver cb ns p)"
proof (induction pre)
  case Nil
  then show ?case by simp
next
  case (Cons a pre)
  obtain t where c: "cb a p = (p, t)" using Cons.prems by (cases "cb a p") simp
  from Cons have "fst (deliver cb (pre @ ns) p) = fst (deliver cb ns p)" by simp
  with c show ?case by (simp add: case_prod_beta)
qed

lemma deliver_first_settles:
  assumes keep: "\<And>m q. settled q \<Longrightarrow> fst (cb m q) = q"
      and skip: "\<forall>m \<in> set pre. fst (cb m Pending) = Pending"
      and hit: "settled (fst (cb n Pending))"
  shows "fst (deliver cb (pre @ n # post) Pending) = fst (cb n Pending)"
proof -
  obtain p' t where c: "cb n Pending = (p', t)" by (cases "cb n Pending")
  from hit c have "settled p'" by simp
  from deliver_settled [of cb p' post, OF keep this]
  have "fst (deliver cb post p') = p'" .
  moreover have "fst (deliver cb (pre @ n # post) Pending) = fst (deliver cb (n # post) Pending)"
    using skip by (rule deliver_ignored)
  ultimately show ?thesis using c by (simp add: case_prod_beta)
qed

lemma deliver_never_settles:
  assumes "\<forall>m \<in> set ns. fst (cb m Pending) = Pending"
  shows "fst (deliver cb ns Pending) = Pending"
  using deliver_ignored [where pre = ns and ns = "[]" and cb = cb and p = Pending, OF assms]
  by simp

lemma transactMnemonicString_callback_hashes:
  "hashes_present p \<Longrightarrow> hashes_present (fst (transactMnemonicString_callback n p))"
  by (cases p)
     (simp_all add: transactMnemonicString_callback_def hashes_present_def toHex_nonempty
        split: ExtrinsicStatus.splits option.splits)

lemma transactSigned_callback_hashes:
  "hashes_present p \<Longrightarrow> hashes_present (fst (transactSigned_callback n p))"
  by (cases p)
     (simp_all add: transactSigned_callback_def hashes_present_def toHex_nonempty
        split: sum.splits)

lemma transactMnemonicString_fulfilled:
  assumes "snd (transactMnemonicString e req) = Some (Inr r)"
  shows "\<exists>ns r'. fst (deliver transactMnemonicString_callback ns Pending) = Fulfilled r' \<and>
           r = \<lparr>success = tx_success r', txHash = Some (transactionHash r'),
                blockHash = Some (blockhash r')\<rparr>"
  using assms unfolding transactMnemonicString_def Let_def case_prod_beta
  by (auto split: if_splits sum.splits promise.splits)

lemma transactMnemonicString_hashes:
  assumes "snd (transactMnemonicString e req) = Some (Inr r)"
  shows "\<exists>t b. txHash r = Some t \<and> blockHash r = Some b \<and> t \<noteq> [] \<and> b \<noteq> []"
proof -
  have inv: "hashes_present (fst (deliver transactMnemonicString_callback ns Pending))" for ns
    by (rule deliver_invariant [where I = hashes_present])
       (erule transactMnemonicString_callback_hashes, simp add: hashes_present_def)
  from transactMnemonicString_fulfilled [OF assms] obtain ns r' where
    f: "fst (deliver transactMnemonicString_callback ns Pending) = Fulfilled r'" and
    r: "r = \<lparr>success = tx_success r', txHash = Some (transactionHash r'),
              blockHash = Some (blockhash r')\<rparr>"
    by blast
  from inv [of ns] f have "transactionHash r' \<noteq> [] \<and> blockhash r' \<noteq> []"
    by (simp add: hashes_present_def)
  with r show ?thesis by simp
qed

lemma transactSigned_fulfilled:
  assumes "snd (transactSigned e req) = Some (Inr r)"
  shows "\<exists>ns r'. fst (deliver transactSigned_callback ns Pending) = Fulfilled r' \<and>
           r = \<lparr>success = True, txHash = Some (transactionHash r'),
                blockHash = Some (blockhash r')\<rparr>"
  using assms unfolding transactSigned_def Let_def case_prod_beta
  by (auto split: if_splits sum.splits promise.splits option.splits)

lemma transactSigned_hashes:
  assumes "snd (transactSigned e req) = Some (Inr r)"
  shows "\<exists>t b. txHash r = Some t \<and> blockHash r = Some b \<and> t \<noteq> [] \<and> b \<noteq> []"
proof -
  have inv: "hashes_present (fst (deliver transactSigned_callback ns Pending))" for ns
    by (rule deliver_invariant [where I = hashes_present])
       (erule transactSigned_callback_hashes, simp add: hashes_present_def)
  from transactSigned_fulfilled [OF assms] obtain ns r' where
    f: "fst (deliver transactSigned_callback ns Pending) = Fulfilled r'" and
    r: "r = \<lparr>success = True, txHash = Some (transactionHash r'),
              blockHash = Some (blockhash r')\<rparr>"
    by blast
  from inv [of ns] f have "transactionHash r' \<noteq> [] \<and> blockhash r' \<noteq> []"
    by (simp add: hashes_present_def)
  with r show ?thesis by simp
qed

lemma transactCactusKeychainRef_snd:
  "snd (transactCactusKeychainRef e req) = Some (Inr r) \<Longrightarrow>
   \<exists>req'. snd (transactMnemonicString e req') = Some (Inr r)"
  unfolding transactCactusKeychainRef_def Let_def case_prod_beta
  by (auto split: sum.splits option.splits)

subsection \<open>Deployment with a pre-signed credential\<close>

text \<open>
  Claim C2. On a connected plugin, \<open>deployContract\<close> with the credential of type \<open>NONE\<close>
  fails with "Cannot deploy contract with pre-signed TX", whatever the other fields of the
  request are, and makes no collaborator call at all: nothing is submitted to the chain.
\<close>

theorem deployContract_rejects_presigned:
  assumes "api e" and "dc_web3SigningCredential req = NoneCredential"
  shows "deployContract e req = ([], Some (Inl CannotDeployPreSigned))"
  using assms by (simp add: deployContract_def)

theorem deployContract_rejects_presigned_witness:
  "api test_env \<and>
   dc_web3SigningCredential (test_deploy NoneCredential (Some [''false''])) = NoneCredential \<and>
   deployContract test_env (test_deploy NoneCredential (Some [''false''])) =
     ([], Some (Inl CannotDeployPreSigned))"
proof -
  have a: "api test_env" by (simp add: test_env_def)
  have c: "dc_web3SigningCredential (test_deploy NoneCredential (Some [''false''])) = NoneCredential"
    by (simp add: test_deploy_def)
  from deployContract_rejects_presigned [OF a c] a c show ?thesis by simp
qed

subsection \<open>Signature checks of a pre-signed transaction\<close>

text \<open>
  On a connected plugin, once the payload is rehydrated, neither signature check of
  \<open>transactSigned\<close> (lines 521 to 527) fires: the transaction is handed to the node,
  signed or not.
\<close>

lemma transactSigned_outcome:
  assumes "api e"
      and "transferSubmittable (transactionConfig req) = Some signedTx"
      and "signedTx \<noteq> []"
      and "api_tx e signedTx = Inr tx"
  shows "snd (transactSigned e req) =
           (case fst (deliver transactSigned_callback (submitAndWatchExtrinsic e tx) Pending) of
              Pending \<Rightarrow> None
            | Rejected x \<Rightarrow> Some (Inl (SubmissionFailed x))
            | Fulfilled r \<Rightarrow>
                Some (Inr \<lparr>success = True, txHash = Some (transactionHash r),
                           blockHash = Some (blockhash r)\<rparr>))"
  using assms
  by (simp add: transactSigned_def signature_toHex_def toHex_nonempty isHex_toHex
      case_prod_beta split: promise.splits)

lemma transactSigned_submits:
  assumes "api e"
      and "transferSubmittable (transactionConfig req) = Some signedTx"
      and "signedTx \<noteq> []"
      and "api_tx e signedTx = Inr tx"
  shows "\<exists>es. fst (transactSigned e req) = SubmitAndWatchExtrinsic tx # es"
  using assms
  by (simp add: transactSigned_def signature_toHex_def toHex_nonempty isHex_toHex
      case_prod_beta split: promise.splits)

text \<open>
  Claim C3 states that \<open>transactSigned\<close> fails with "Transaction is not signed" when the
  rehydrated transaction carries no signature, and with "Transaction signature is not
  valid" when the signature is not hexadecimal, before the node is contacted. In the run
  below the payload is a transaction that nobody signed: its signature field renders as
  \<open>0x\<close> and 128 zeros, which is neither empty nor invalid, both checks pass and the
  transaction is submitted to the node, which refuses it without a notification; the call
  stays pending.
\<close>

theorem transactSigned_submits_unsigned:
  "api_tx test_env ''0x2c01'' = Inr (Extrinsic False unsigned_signature ''0x2c01'') \<and>
   length (signature_toHex (Extrinsic False unsigned_signature ''0x2c01'')) = 130 \<and>
   isHex (signature_toHex (Extrinsic False unsigned_signature ''0x2c01'')) \<and>
   transactSigned test_env test_unsigned =
     ([SubmitAndWatchExtrinsic (Extrinsic False unsigned_signature ''0x2c01'')], None)"
proof -
  have "length (toHex unsigned_signature) = 2 + 2 * length unsigned_signature"
    by (simp add: toHex_def toHex_length)
  moreover have "length unsigned_signature = 64"
    by (simp add: unsigned_signature_def)
  ultimately have "length (signature_toHex (Extrinsic False unsigned_signature ''0x2c01'')) = 130"
    by (simp add: signature_toHex_def)
  moreover have "isHex (signature_toHex (Extrinsic False unsigned_signature ''0x2c01''))"
    by (simp add: signature_toHex_def isHex_toHex)
  moreover have "api_tx test_env ''0x2c01'' = Inr (Extrinsic False unsigned_signature ''0x2c01'')"
    by (simp add: test_env_def)
  moreover have "transactSigned test_env test_unsigned =
      ([SubmitAndWatchExtrinsic (Extrinsic False unsigned_signature ''0x2c01'')], None)"
    by (simp add: transactSigned_def test_env_def test_unsigned_def signature_toHex_def
        toHex_nonempty isHex_toHex)
  ultimately show ?thesis by simp
qed

subsection \<open>A successful submission carries both hashes\<close>

text \<open>
  Claim C6. Whenever \<open>transact\<close>, \<open>transactCactusKeychainRef\<close>, \<open>transactMnemonicString\<close>
  or \<open>transactSigned\<close> returns a response whose \<open>success\<close> is true, \<open>txHash\<close> and
  \<open>blockHash\<close> are both present and neither is the empty string.
\<close>

theorem success_has_hashes:
  assumes "out = transact e req \<or> out = transactCactusKeychainRef e req \<or>
           out = transactMnemonicString e req \<or> out = transactSigned e req"
      and "snd out = Some (Inr r)"
      and "success r"
  shows "\<exists>t b. txHash r = Some t \<and> blockHash r = Some b \<and> t \<noteq> [] \<and> b \<noteq> []"
proof -
  have "(\<exists>req'. snd (transactMnemonicString e req') = Some (Inr r)) \<or>
        snd (transactSigned e req) = Some (Inr r)"
    using assms(1,2) transactCactusKeychainRef_snd [of e req r]
    by (auto simp: transact_def split: Web3SigningCredential.splits if_splits)
  then show ?thesis
    using transactMnemonicString_hashes transactSigned_hashes by blast
qed


theorem success_has_hashes_witness:
  "snd (transact test_env (test_request (MnemonicString ''//Alice''))) =
     Some (Inr \<lparr>success = True, txHash = Some (toHex [7]), blockHash = Some (toHex [1, 2])\<rparr>) \<and>
   success \<lparr>success = True, txHash = Some (toHex [7]), blockHash = Some (toHex [1, 2])\<rparr> \<and>
   (\<exists>t b. txHash \<lparr>success = True, txHash = Some (toHex [7]), blockHash = Some (toHex [1, 2])\<rparr> = Some t \<and>
          blockHash \<lparr>success = True, txHash = Some (toHex [7]), blockHash = Some (toHex [1, 2])\<rparr> = Some b \<and>
          t \<noteq> [] \<and> b \<noteq> [])"
proof -
  let ?r = "\<lparr>success = True, txHash = Some (toHex [7]), blockHash = Some (toHex [1, 2])\<rparr>"
  have run: "snd (transact test_env (test_request (MnemonicString ''//Alice''))) = Some (Inr ?r)"
    by (simp add: transact_def transactMnemonicString_def test_env_def test_request_def
        test_config_def transactMnemonicString_callback_def isExtrinsicSuccess_def)
  have ok: "success ?r" by simp
  have "transact test_env (test_request (MnemonicString ''//Alice'')) =
          transact test_env (test_request (MnemonicString ''//Alice'')) \<or>
        transact test_env (test_request (MnemonicString ''//Alice'')) =
          transactCactusKeychainRef test_env (test_request (MnemonicString ''//Alice'')) \<or>
        transact test_env (test_request (MnemonicString ''//Alice'')) =
          transactMnemonicString test_env (test_request (MnemonicString ''//Alice'')) \<or>
        transact test_env (test_request (MnemonicString ''//Alice'')) =
          transactSigned test_env (test_request (MnemonicString ''//Alice''))"
    by simp
  from success_has_hashes [OF this run ok] run ok show ?thesis by simp
qed

subsection \<open>The keychain reference path\<close>

text \<open>
  Claim C7. For a request whose credential is a keychain reference: when the registry
  answers a keychain and the keychain answers the secret \<open>s\<close> for the entry key,
  \<open>transactCactusKeychainRef\<close> makes the two lookups and then runs exactly as
  \<open>transactMnemonicString\<close> does on the mnemonic \<open>s\<close> and the same transaction config, with
  the same outcome. When the registry answers no keychain, or throws, the call fails after
  the registry lookup alone: no key pair is derived and nothing is signed or sent.
\<close>

theorem keychainRef_as_mnemonic:
  assumes "web3SigningCredential req = CactusKeychainRef key kid"
  shows "(\<forall>kc s. findOneByKeychainId e (Some kid) = Inr (Some kc) \<and> kc (Some key) = Inr s \<longrightarrow>
            transactCactusKeychainRef e req =
              ([FindOneByKeychainId (Some kid), KeychainGet (Some key)] @
                 fst (transactMnemonicString e
                        \<lparr>web3SigningCredential = MnemonicString s,
                         transactionConfig = transactionConfig req\<rparr>),
               snd (transactMnemonicString e
                      \<lparr>web3SigningCredential = MnemonicString s,
                       transactionConfig = transactionConfig req\<rparr>))) \<and>
         (findOneByKeychainId e (Some kid) = Inr None \<longrightarrow>
            transactCactusKeychainRef e req =
              ([FindOneByKeychainId (Some kid)], Some (Inl (ChecksFalsy ''keychain for ID'')))) \<and>
         (\<forall>x. findOneByKeychainId e (Some kid) = Inl x \<longrightarrow>
            transactCactusKeychainRef e req = ([FindOneByKeychainId (Some kid)], Some (Inl x)))"
  using assms by (simp add: transactCactusKeychainRef_def case_prod_beta)

theorem keychainRef_as_mnemonic_witness:
  "transactCactusKeychainRef test_env (test_request (CactusKeychainRef ''k1'' ''kc1'')) =
     ([FindOneByKeychainId (Some ''kc1''), KeychainGet (Some ''k1'')] @
        fst (transactMnemonicString test_env (test_request (MnemonicString ''//Bob''))),
      snd (transactMnemonicString test_env (test_request (MnemonicString ''//Bob'')))) \<and>
   snd (transactMnemonicString test_env (test_request (MnemonicString ''//Bob''))) =
     Some (Inr \<lparr>success = True, txHash = Some (toHex [7]), blockHash = Some (toHex [1, 2])\<rparr>) \<and>
   transactCactusKeychainRef test_env (test_request (CactusKeychainRef ''k1'' ''kc2'')) =
     ([FindOneByKeychainId (Some ''kc2'')], Some (Inl (ChecksFalsy ''keychain for ID'')))"
proof -
  have c1: "web3SigningCredential (test_request (CactusKeychainRef ''k1'' ''kc1'')) =
              CactusKeychainRef ''k1'' ''kc1''"
   and c2: "web3SigningCredential (test_request (CactusKeychainRef ''k1'' ''kc2'')) =
              CactusKeychainRef ''k1'' ''kc2''"
    by (simp_all add: test_request_def)
  have f1: "findOneByKeychainId test_env (Some ''kc1'') = Inr (Some test_keychain)"
   and f2: "findOneByKeychainId test_env (Some ''kc2'') = Inr None"
    by (simp_all add: test_env_def)
  have g: "test_keychain (Some ''k1'') = Inr ''//Bob''"
    by (simp add: test_keychain_def)
  have cfg: "\<lparr>web3SigningCredential = MnemonicString ''//Bob'',
              transactionConfig = transactionConfig (test_request (CactusKeychainRef ''k1'' ''kc1''))\<rparr> =
             test_request (MnemonicString ''//Bob'')"
    by (simp add: test_request_def)
  have run: "snd (transactMnemonicString test_env (test_request (MnemonicString ''//Bob''))) =
     Some (Inr \<lparr>success = True, txHash = Some (toHex [7]), blockHash = Some (toHex [1, 2])\<rparr>)"
    by (simp add: transactMnemonicString_def test_env_def test_request_def
        test_config_def transactMnemonicString_callback_def isExtrinsicSuccess_def)
  from keychainRef_as_mnemonic [OF c1, of test_env] keychainRef_as_mnemonic [OF c2, of test_env]
       f1 f2 g cfg run
  show ?thesis by simp
qed

subsection \<open>The constructor call of a deployment\<close>

lemma deploy_mnemonic_effects:
  "x \<in> set (fst (deploy_mnemonic e c)) \<Longrightarrow>
   (\<exists>i. x = FindOneByKeychainId i) \<or> (\<exists>k. x = KeychainGet k)"
  by (auto simp: deploy_mnemonic_def Let_def split: if_splits sum.splits option.splits)

lemma constructor_args_cases:
  "constructor_args ps =
     (case ps of None \<Rightarrow> [Undefined] | Some xs \<Rightarrow> if xs = [] then [Undefined] else map Arg xs)"
  by (simp add: constructor_args_def split: option.splits)

text \<open>In every run, a constructor call is a call of the first constructor of the parsed
  ABI.\<close>

lemma deployContract_constructor_calls:
  assumes "ContractTx m opts args \<in> set (fst (deployContract e req))"
  shows "\<exists>abi c cs gas. newAbi e (metadata req) = Inr abi \<and> constructors abi = c # cs \<and>
           createType_WeightV2 e (refTime (gasLimit req)) (proofSize (gasLimit req)) = Inr gas \<and>
           m = abi_method c \<and> opts = instantiate_options gas req \<and>
           args = (case params req of
                     None \<Rightarrow> [Undefined]
                   | Some xs \<Rightarrow> if xs = [] then [Undefined] else map Arg xs)"
  using assms unfolding deployContract_def case_prod_beta constructor_args_cases
  by (auto split: if_splits sum.splits option.splits list.splits promise.splits
      dest: deploy_mnemonic_effects deliver_effects_Uncaught)

lemma deployContract_no_constructor:
  assumes "api e"
      and "\<not> isWeb3SigningCredentialNone (dc_web3SigningCredential req)"
      and "deploy_mnemonic e (dc_web3SigningCredential req) = (es0, Inr mnemonic)"
      and "newAbi e (metadata req) = Inr contractAbi"
      and "newCodePromise e contractAbi (wasm req) = Inr contractCode"
      and "createType_WeightV2 e (refTime (gasLimit req)) (proofSize (gasLimit req)) = Inr gas"
      and "createFromUri e mnemonic = Inr accountPair"
      and "constructors contractAbi = []"
  shows "deployContract e req =
           (es0 @ [CreateFromUri mnemonic],
            Some (Inl (DeploymentFailed (TypeError ''contractAbi.constructors[0].method''))))"
  using assms by (simp add: deployContract_def)

text \<open>
  Claim C8. When \<open>deployContract\<close> reaches the construction of the call (the plugin is
  connected, the credential yields a mnemonic, the metadata, the code and the gas limit
  are accepted, the key pair is derived) and the ABI has a constructor, it makes one
  constructor call on the code blueprint and no other: the call of the method of the
  constructor at index 0, with the options of the request and, as arguments, the
  parameters of the request when there are some and the single argument \<open>undefined\<close>
  when the parameters are absent or empty. The request has no field that selects a
  constructor. The call so built is the one that is signed and sent.
\<close>

theorem deployContract_first_constructor:
  assumes "api e"
      and "\<not> isWeb3SigningCredentialNone (dc_web3SigningCredential req)"
      and "deploy_mnemonic e (dc_web3SigningCredential req) = (es0, Inr mnemonic)"
      and "newAbi e (metadata req) = Inr contractAbi"
      and "newCodePromise e contractAbi (wasm req) = Inr contractCode"
      and "createType_WeightV2 e (refTime (gasLimit req)) (proofSize (gasLimit req)) = Inr gas"
      and "createFromUri e mnemonic = Inr accountPair"
      and "constructors contractAbi = c # cs"
  shows "(\<forall>m opts args.
            (ContractTx m opts args \<in> set (fst (deployContract e req))) =
            (m = abi_method c \<and> opts = instantiate_options gas req \<and>
             args = (case params req of
                       None \<Rightarrow> [Undefined]
                     | Some xs \<Rightarrow> if xs = [] then [Undefined] else map Arg xs))) \<and>
         (\<forall>tx. code_tx e contractCode (abi_method c) (instantiate_options gas req)
                 (case params req of
                    None \<Rightarrow> [Undefined]
                  | Some xs \<Rightarrow> if xs = [] then [Undefined] else map Arg xs) = Inr (Some tx) \<longrightarrow>
               DeploySignAndSend tx accountPair \<in> set (fst (deployContract e req)))"
proof -
  let ?args = "case params req of
                 None \<Rightarrow> [Undefined]
               | Some xs \<Rightarrow> if xs = [] then [Undefined] else map Arg xs"
  let ?call = "ContractTx (abi_method c) (instantiate_options gas req) ?args"
  have made: "?call \<in> set (fst (deployContract e req))"
    using assms unfolding deployContract_def case_prod_beta constructor_args_cases
    by (simp split: sum.splits option.splits)
  have only: "m = abi_method c \<and> opts = instantiate_options gas req \<and> args = ?args"
    if "ContractTx m opts args \<in> set (fst (deployContract e req))" for m opts args
    using deployContract_constructor_calls [OF that] assms(4,6,8) by auto
  have sent: "DeploySignAndSend tx accountPair \<in> set (fst (deployContract e req))"
    if "code_tx e contractCode (abi_method c) (instantiate_options gas req) ?args = Inr (Some tx)"
    for tx
    using assms that unfolding deployContract_def case_prod_beta constructor_args_cases
    by simp
  from made only sent show ?thesis by blast
qed

theorem deployContract_first_constructor_witness:
  "ContractTx ''new''
     (instantiate_options \<lparr>refTime = 6219235328, proofSize = 131072\<rparr>
        (test_deploy (MnemonicString ''//Alice'') None))
     [Undefined]
     \<in> set (fst (deployContract test_env (test_deploy (MnemonicString ''//Alice'') None))) \<and>
   ContractTx ''default''
     (instantiate_options \<lparr>refTime = 6219235328, proofSize = 131072\<rparr>
        (test_deploy (MnemonicString ''//Alice'') None))
     [Undefined]
     \<notin> set (fst (deployContract test_env (test_deploy (MnemonicString ''//Alice'') None))) \<and>
   ContractTx ''new''
     (instantiate_options \<lparr>refTime = 6219235328, proofSize = 131072\<rparr>
        (test_deploy (MnemonicString ''//Alice'') None))
     []
     \<notin> set (fst (deployContract test_env (test_deploy (MnemonicString ''//Alice'') None))) \<and>
   DeploySignAndSend (SubmittableExtrinsic ''new'') (KeyringPair ''//Alice'')
     \<in> set (fst (deployContract test_env (test_deploy (MnemonicString ''//Alice'') None)))"
proof -
  let ?req = "test_deploy (MnemonicString ''//Alice'') None"
  let ?gas = "\<lparr>refTime = 6219235328, proofSize = 131072\<rparr>"
  have a: "api test_env" by (simp add: test_env_def)
  have b: "\<not> isWeb3SigningCredentialNone (dc_web3SigningCredential ?req)"
    by (simp add: test_deploy_def)
  have c: "deploy_mnemonic test_env (dc_web3SigningCredential ?req) = ([], Inr (Some ''//Alice''))"
    by (simp add: deploy_mnemonic_def test_deploy_def)
  have d: "newAbi test_env (metadata ?req) = Inr (Abi [AbiMessage ''new'', AbiMessage ''default''])"
    by (simp add: test_env_def)
  have f: "newCodePromise test_env (Abi [AbiMessage ''new'', AbiMessage ''default'']) (wasm ?req) =
             Inr (CodePromise (Abi [AbiMessage ''new'', AbiMessage ''default'']) (wasm ?req))"
    by (simp add: test_env_def)
  have g: "createType_WeightV2 test_env (refTime (gasLimit ?req)) (proofSize (gasLimit ?req)) =
             Inr ?gas"
    by (simp add: test_env_def test_deploy_def)
  have h: "createFromUri test_env (Some ''//Alice'') = Inr (KeyringPair ''//Alice'')"
    by (simp add: test_env_def)
  have i: "constructors (Abi [AbiMessage ''new'', AbiMessage ''default'']) =
             AbiMessage ''new'' # [AbiMessage ''default'']"
    by simp
  have p: "params ?req = None" by (simp add: test_deploy_def)
  have t: "code_tx test_env (CodePromise (Abi [AbiMessage ''new'', AbiMessage ''default'']) (wasm ?req))
             ''new'' (instantiate_options ?gas ?req) [Undefined] =
           Inr (Some (SubmittableExtrinsic ''new''))"
    by (simp add: test_env_def)
  from deployContract_first_constructor [OF a b c d f g h i] p t show ?thesis
    by simp
qed

subsection \<open>The transaction counter of a deployment\<close>

lemma deployContract_counter_case:
  "(AddCurrentTransaction \<in> set (fst (deployContract e req))) =
   (case snd (deployContract e req) of
      Some (Inr r) \<Rightarrow> \<not> truthy (dc_address r)
    | _ \<Rightarrow> False)"
  unfolding deployContract_def case_prod_beta
  by (auto simp: truthy_def split: if_splits sum.splits option.splits list.splits promise.splits
      dest: deploy_mnemonic_effects deliver_effects_Uncaught)

lemma deployContract_counter_iff:
  "(AddCurrentTransaction \<in> set (fst (deployContract e req))) =
   (\<exists>r. snd (deployContract e req) = Some (Inr r) \<and> \<not> truthy (dc_address r))"
  by (simp add: deployContract_counter_case split: option.splits sum.splits)

text \<open>
  Claim C10. \<open>deployContract\<close> increments the transaction counter exactly when it returns
  a response whose address is missing or empty. A deployment that returns with
  \<open>success\<close> true and an address does not increment it.
\<close>

theorem deployContract_counter:
  "(AddCurrentTransaction \<in> set (fst (deployContract e req))) =
     (\<exists>r. snd (deployContract e req) = Some (Inr r) \<and> \<not> truthy (dc_address r)) \<and>
   (\<forall>r a. snd (deployContract e req) = Some (Inr r) \<and> dc_success r \<and>
          dc_address r = Some a \<and> a \<noteq> [] \<longrightarrow>
      AddCurrentTransaction \<notin> set (fst (deployContract e req)))"
  by (auto simp: deployContract_counter_iff truthy_def)

theorem deployContract_counter_witness:
  "snd (deployContract test_env (test_deploy (MnemonicString ''//Alice'') (Some [''false'']))) =
     Some (Inr \<lparr>dc_success = True, dc_address = Some ''5Contract''\<rparr>) \<and>
   AddCurrentTransaction
     \<notin> set (fst (deployContract test_env (test_deploy (MnemonicString ''//Alice'') (Some [''false''])))) \<and>
   snd (deployContract (test_env\<lparr>code_tx := \<lambda>c m opts args. Inr None\<rparr>)
          (test_deploy (MnemonicString ''//Alice'') (Some [''false'']))) =
     Some (Inr \<lparr>dc_success = False, dc_address = None\<rparr>) \<and>
   AddCurrentTransaction
     \<in> set (fst (deployContract (test_env\<lparr>code_tx := \<lambda>c m opts args. Inr None\<rparr>)
                   (test_deploy (MnemonicString ''//Alice'') (Some [''false'']))))"
proof -
  let ?req = "test_deploy (MnemonicString ''//Alice'') (Some [''false''])"
  let ?e = "test_env\<lparr>code_tx := \<lambda>c m opts args. Inr None\<rparr>"
  have ok: "snd (deployContract test_env ?req) =
              Some (Inr \<lparr>dc_success = True, dc_address = Some ''5Contract''\<rparr>)"
    by (simp add: deployContract_def deploy_mnemonic_def test_env_def test_deploy_def
        deployContract_callback_def case_prod_beta)
  have ko: "snd (deployContract ?e ?req) = Some (Inr \<lparr>dc_success = False, dc_address = None\<rparr>)"
    by (simp add: deployContract_def deploy_mnemonic_def test_env_def test_deploy_def
        case_prod_beta)
  from deployContract_counter [of test_env ?req] ok
  have "AddCurrentTransaction \<notin> set (fst (deployContract test_env ?req))"
    by (simp add: truthy_def)
  moreover from deployContract_counter [of ?e ?req] ko
  have "AddCurrentTransaction \<in> set (fst (deployContract ?e ?req))"
    by (simp add: truthy_def)
  ultimately show ?thesis using ok ko by simp
qed

subsection \<open>The era of the transaction information\<close>

lemma calPeriod_values:
  "calPeriod w \<in> {4, 8, 16, 32, 64, 128, 256, 512, 1024, 2048, 4096, 8192, 16384, 32768, 65536}"
  by (simp add: calPeriod_def)

lemma calPeriod_covers: "w \<le> 65536 \<Longrightarrow> w \<le> int (calPeriod w)"
  by (simp add: calPeriod_def)

lemma calPeriod_clamped: "65536 < w \<Longrightarrow> calPeriod w = 65536"
  by (simp add: calPeriod_def)

lemma calPeriod_least: "4 < calPeriod w \<Longrightarrow> int (calPeriod w) < 2 * w"
  by (simp add: calPeriod_def split: if_splits)

lemma calPeriod_exact:
  "(int (calPeriod w) = w) =
   (w \<in> {4, 8, 16, 32, 64, 128, 256, 512, 1024, 2048, 4096, 8192, 16384, 32768, 65536})"
  by (auto simp: calPeriod_def)

text \<open>
  Claim C9, as the spec states it, fails on the spec's own example: for the window 50, and
  for an absent or zero window, the era encodes a period of 64 blocks, not 50. For the
  window -5 the codec refuses the era and the call fails.
\<close>

theorem obtainTransactionInformation_window_not_kept:
  "era_of (obtainTransactionInformation test_env
             \<lparr>accountAddress = Some ''5Alice'', transactionExpiration = Some 50\<rparr>) =
     Some (MortalEra 64 12) \<and>
   era_of (obtainTransactionInformation test_env
             \<lparr>accountAddress = Some ''5Alice'', transactionExpiration = None\<rparr>) =
     Some (MortalEra 64 12) \<and>
   era_of (obtainTransactionInformation test_env
             \<lparr>accountAddress = Some ''5Alice'', transactionExpiration = Some 0\<rparr>) =
     Some (MortalEra 64 12) \<and>
   obtainTransactionInformation test_env
     \<lparr>accountAddress = Some ''5Alice'', transactionExpiration = Some (- 5)\<rparr> =
     ([GetBlock, DeriveBalancesAccount (Some ''5Alice'')],
      Some (Inl (ObtainInfoFailed (External ''ExtrinsicEra''))))"
  by (simp add: obtainTransactionInformation_def era_of_def expiration_or_default_def
      createType_ExtrinsicEra_def calPeriod_def test_env_def)

text \<open>
  Claim C9, amended. Let the plugin be connected and the node answer the block and the
  nonce, and let \<open>w\<close> be the \<open>transactionExpiration\<close> of the request, or 50 when that is
  absent or zero. When \<open>w\<close> is negative the call fails. Otherwise the call returns the nonce
  and the block hash the node answered and an era whose period is the least power of two
  from 4 to 65536 that is not below \<open>w\<close> (65536 when \<open>w\<close> exceeds it), and whose phase is
  the number of the queried block modulo that period. Among the values that are not
  negative, changing \<open>transactionExpiration\<close> changes nothing of the run but the era.
\<close>

theorem obtainTransactionInformation_era:
  assumes "api e" and "getBlock e = Inr signedBlock"
      and "accountNonce e (accountAddress req) = Inr nonce"
      and "w = (case transactionExpiration req of
                  None \<Rightarrow> 50
                | Some k \<Rightarrow> if k = 0 then 50 else k)"
  shows "(w < 0 \<longrightarrow>
            obtainTransactionInformation e req =
              ([GetBlock, DeriveBalancesAccount (accountAddress req)],
               Some (Inl (ObtainInfoFailed (External ''ExtrinsicEra''))))) \<and>
         (0 \<le> w \<longrightarrow>
            (\<exists>p. obtainTransactionInformation e req =
                   ([GetBlock, DeriveBalancesAccount (accountAddress req)],
                    Some (Inr \<lparr>responseContainer =
                      \<lparr>response_data =
                         \<lparr>info_nonce = nonce,
                          info_blockHash = header_hash signedBlock,
                          info_era = MortalEra p (header_number signedBlock mod p)\<rparr>,
                       succeeded = True,
                       message = ''obtainTransactionInformation''\<rparr>\<rparr>)) \<and>
                 p \<in> {4, 8, 16, 32, 64, 128, 256, 512, 1024, 2048, 4096, 8192, 16384,
                      32768, 65536} \<and>
                 (w \<le> 65536 \<longrightarrow> w \<le> int p) \<and>
                 (65536 < w \<longrightarrow> p = 65536) \<and>
                 (4 < p \<longrightarrow> int p < 2 * w))) \<and>
         (\<forall>u v. (\<forall>k. u = Some k \<longrightarrow> 0 \<le> k) \<and> (\<forall>k. v = Some k \<longrightarrow> 0 \<le> k) \<longrightarrow>
            without_era (obtainTransactionInformation e (req\<lparr>transactionExpiration := u\<rparr>)) =
            without_era (obtainTransactionInformation e (req\<lparr>transactionExpiration := v\<rparr>)))"
proof -
  have w: "w = expiration_or_default (transactionExpiration req)"
    using assms(4) by (simp add: expiration_or_default_def)
  have neg: "obtainTransactionInformation e req =
               ([GetBlock, DeriveBalancesAccount (accountAddress req)],
                Some (Inl (ObtainInfoFailed (External ''ExtrinsicEra''))))" if "w < 0"
    using assms(1-3) that w
    by (simp add: obtainTransactionInformation_def createType_ExtrinsicEra_def Let_def)
  have pos: "obtainTransactionInformation e req =
               ([GetBlock, DeriveBalancesAccount (accountAddress req)],
                Some (Inr \<lparr>responseContainer =
                  \<lparr>response_data =
                     \<lparr>info_nonce = nonce,
                      info_blockHash = header_hash signedBlock,
                      info_era = MortalEra (calPeriod w) (header_number signedBlock mod calPeriod w)\<rparr>,
                   succeeded = True,
                   message = ''obtainTransactionInformation''\<rparr>\<rparr>))" if "0 \<le> w"
    using assms(1-3) that w
    by (simp add: obtainTransactionInformation_def createType_ExtrinsicEra_def Let_def)
  have frame: "without_era (obtainTransactionInformation e (req\<lparr>transactionExpiration := u\<rparr>)) =
               ([GetBlock, DeriveBalancesAccount (accountAddress req)],
                Some (Inr (nonce, header_hash signedBlock)))"
    if "\<forall>k. u = Some k \<longrightarrow> 0 \<le> k" for u
    using assms(1-3) that
    by (cases u)
       (simp_all add: obtainTransactionInformation_def createType_ExtrinsicEra_def
          expiration_or_default_def without_era_def Let_def)
  show ?thesis
  proof (intro conjI impI allI)
    assume "w < 0"
    then show "obtainTransactionInformation e req =
                 ([GetBlock, DeriveBalancesAccount (accountAddress req)],
                  Some (Inl (ObtainInfoFailed (External ''ExtrinsicEra''))))"
      by (rule neg)
  next
    assume "0 \<le> w"
    from pos [OF this] calPeriod_values [of w] calPeriod_covers [of w] calPeriod_least [of w]
         calPeriod_clamped [of w]
    show "\<exists>p. obtainTransactionInformation e req =
                   ([GetBlock, DeriveBalancesAccount (accountAddress req)],
                    Some (Inr \<lparr>responseContainer =
                      \<lparr>response_data =
                         \<lparr>info_nonce = nonce,
                          info_blockHash = header_hash signedBlock,
                          info_era = MortalEra p (header_number signedBlock mod p)\<rparr>,
                       succeeded = True,
                       message = ''obtainTransactionInformation''\<rparr>\<rparr>)) \<and>
                 p \<in> {4, 8, 16, 32, 64, 128, 256, 512, 1024, 2048, 4096, 8192, 16384,
                      32768, 65536} \<and>
                 (w \<le> 65536 \<longrightarrow> w \<le> int p) \<and>
                 (65536 < w \<longrightarrow> p = 65536) \<and>
                 (4 < p \<longrightarrow> int p < 2 * w)"
      by (intro exI [of _ "calPeriod w"]) blast
  next
    fix u v :: "int option"
    assume "(\<forall>k. u = Some k \<longrightarrow> 0 \<le> k) \<and> (\<forall>k. v = Some k \<longrightarrow> 0 \<le> k)"
    then show "without_era (obtainTransactionInformation e (req\<lparr>transactionExpiration := u\<rparr>)) =
               without_era (obtainTransactionInformation e (req\<lparr>transactionExpiration := v\<rparr>))"
      using frame [of u] frame [of v] by simp
  qed
qed

theorem obtainTransactionInformation_era_witness:
  "era_of (obtainTransactionInformation test_env
             \<lparr>accountAddress = Some ''5Alice'', transactionExpiration = Some 500\<rparr>) =
     Some (MortalEra 512 12) \<and>
   without_era (obtainTransactionInformation test_env
             \<lparr>accountAddress = Some ''5Alice'', transactionExpiration = Some 500\<rparr>) =
     ([GetBlock, DeriveBalancesAccount (Some ''5Alice'')], Some (Inr (3, [4]))) \<and>
   without_era (obtainTransactionInformation test_env
             \<lparr>accountAddress = Some ''5Alice'', transactionExpiration = None\<rparr>) =
     ([GetBlock, DeriveBalancesAccount (Some ''5Alice'')], Some (Inr (3, [4])))"
proof -
  let ?r = "\<lparr>accountAddress = Some ''5Alice'', transactionExpiration = Some 500\<rparr>"
  have a: "api test_env" and b: "getBlock test_env = Inr (Header 12 [4])"
    by (simp_all add: test_env_def)
  have n: "accountNonce test_env (accountAddress ?r) = Inr 3"
    by (simp add: test_env_def)
  have w: "(500::int) = (case transactionExpiration ?r of
                           None \<Rightarrow> 50
                         | Some k \<Rightarrow> if k = 0 then 50 else k)"
    by simp
  note inst = obtainTransactionInformation_era [OF a b n w]
  from inst obtain p where
    run: "obtainTransactionInformation test_env ?r =
            ([GetBlock, DeriveBalancesAccount (accountAddress ?r)],
             Some (Inr \<lparr>responseContainer =
               \<lparr>response_data =
                  \<lparr>info_nonce = 3, info_blockHash = header_hash (Header 12 [4]),
                   info_era = MortalEra p (header_number (Header 12 [4]) mod p)\<rparr>,
                succeeded = True, message = ''obtainTransactionInformation''\<rparr>\<rparr>))"
    and vals: "p \<in> {4, 8, 16, 32, 64, 128, 256, 512, 1024, 2048, 4096, 8192, 16384,
                    32768, 65536}"
    and low: "500 \<le> int p" and high: "4 < p \<longrightarrow> int p < 2 * 500"
    by auto
  from vals low high have p: "p = 512" by auto
  from inst have fr: "without_era (obtainTransactionInformation test_env
                        (?r\<lparr>transactionExpiration := None\<rparr>)) =
                     without_era (obtainTransactionInformation test_env
                        (?r\<lparr>transactionExpiration := Some 500\<rparr>))"
    by simp
  from run p fr show ?thesis
    by (simp add: era_of_def without_era_def)
qed

subsection \<open>The bridge of transactMnemonicString\<close>

text \<open>
  Among the notifications of a signed submission, those whose status is not "in block" are
  ignored, and the first one in a block settles the call: with the two hashes when its
  events hold \<open>system.ExtrinsicSuccess\<close>, with the reason "transaction not successful"
  otherwise. A submission that is never in a block leaves the call pending.
\<close>

lemma transactMnemonicString_outcome:
  assumes "api e"
      and "createFromUri e (mnemonic_of (web3SigningCredential req)) = Inr pair"
      and "balances_transfer e (tc_to (transactionConfig req)) (tc_value (transactionConfig req))
             = Inr call"
  shows "snd (transactMnemonicString e req) =
           (case fst (deliver transactMnemonicString_callback (signAndSend e call pair) Pending) of
              Pending \<Rightarrow> None
            | Rejected x \<Rightarrow> Some (Inl (TransactionFailed x))
            | Fulfilled r \<Rightarrow>
                Some (Inr \<lparr>success = tx_success r, txHash = Some (transactionHash r),
                           blockHash = Some (blockhash r)\<rparr>))"
  using assms by (simp add: transactMnemonicString_def case_prod_beta)

lemma transactMnemonicString_first_inBlock:
  assumes "api e"
      and "createFromUri e (mnemonic_of (web3SigningCredential req)) = Inr pair"
      and "balances_transfer e (tc_to (transactionConfig req)) (tc_value (transactionConfig req))
             = Inr call"
      and "signAndSend e call pair = pre @ n # post"
      and "\<forall>m \<in> set pre. \<not> isInBlock (res_status m)"
      and "res_status n = InBlock h"
  shows "snd (transactMnemonicString e req) =
           (if \<exists>ev \<in> set (res_events n). isExtrinsicSuccess ev
            then Some (Inr \<lparr>success = True, txHash = Some (toHex (res_txHash n)),
                            blockHash = Some (toHex h)\<rparr>)
            else Some (Inl (TransactionFailed (Str ''transaction not successful''))))"
proof -
  have skip: "\<forall>m \<in> set pre. fst (transactMnemonicString_callback m Pending) = Pending"
    using assms(5) by (simp add: transactMnemonicString_callback_ignores)
  have hit: "fst (transactMnemonicString_callback n Pending) =
               (if \<exists>ev \<in> set (res_events n). isExtrinsicSuccess ev
                then Fulfilled \<lparr>tx_success = True, transactionHash = toHex (res_txHash n),
                                blockhash = toHex h\<rparr>
                else Rejected (Str ''transaction not successful''))"
  proof (cases "find isExtrinsicSuccess (res_events n)")
    case None
    then have "\<not> (\<exists>ev \<in> set (res_events n). isExtrinsicSuccess ev)"
      by (auto simp: find_None_iff)
    with None assms(6) show ?thesis
      by (simp add: transactMnemonicString_callback_def)
  next
    case (Some ev)
    then have "find isExtrinsicSuccess (res_events n) \<noteq> None" by simp
    then have "\<exists>ev \<in> set (res_events n). isExtrinsicSuccess ev"
      by (auto simp: find_None_iff)
    with Some assms(6) show ?thesis
      by (simp add: transactMnemonicString_callback_def)
  qed
  then have "settled (fst (transactMnemonicString_callback n Pending))"
    by simp
  from deliver_first_settles [of transactMnemonicString_callback pre n post,
      OF transactMnemonicString_callback_settled skip this]
  have "fst (deliver transactMnemonicString_callback (signAndSend e call pair) Pending) =
          fst (transactMnemonicString_callback n Pending)"
    using assms(4) by simp
  with hit transactMnemonicString_outcome [OF assms(1-3)] show ?thesis
    by simp
qed

lemma transactMnemonicString_never_inBlock:
  assumes "api e"
      and "createFromUri e (mnemonic_of (web3SigningCredential req)) = Inr pair"
      and "balances_transfer e (tc_to (transactionConfig req)) (tc_value (transactionConfig req))
             = Inr call"
      and "\<forall>m \<in> set (signAndSend e call pair). \<not> isInBlock (res_status m)"
  shows "snd (transactMnemonicString e req) = None"
proof -
  have "\<forall>m \<in> set (signAndSend e call pair).
          fst (transactMnemonicString_callback m Pending) = Pending"
    using assms(4) by (simp add: transactMnemonicString_callback_ignores)
  then have "fst (deliver transactMnemonicString_callback (signAndSend e call pair) Pending) =
               Pending"
    by (rule deliver_never_settles)
  with transactMnemonicString_outcome [OF assms(1-3)] show ?thesis
    by simp
qed

text \<open>
  Claim C1 states that the first notification in a block decides, with success and the two
  hashes when its events hold \<open>system.ExtrinsicSuccess\<close> (so far
  \<open>transactMnemonicString_first_inBlock\<close>), and with a failure that carries the raw event
  list otherwise. The run below is that of a transfer included in the block 0x0102 whose
  only event is \<open>system.ExtrinsicFailed\<close>. The call fails with "The transaction failed"
  around the reason "transaction not successful": the outcome holds no event. The error
  that lists the events is thrown inside the notification callback, after the promise has
  been rejected, and leaves through the subscription.
\<close>

theorem transactMnemonicString_failure_without_events:
  "transactMnemonicString
     (test_env\<lparr>signAndSend := \<lambda>c k.
        [SubmittableResult [EventRecord ''system'' ''ExtrinsicFailed''] (InBlock [1, 2]) [7]]\<rparr>)
     (test_request (MnemonicString ''//Alice'')) =
   ([CreateFromUri (Some ''//Alice''),
     SignAndSend (Call ''5Bob'' 30) (KeyringPair ''//Alice''),
     Uncaught (ExtrinsicSuccessNotDetected [EventRecord ''system'' ''ExtrinsicFailed''])],
    Some (Inl (TransactionFailed (Str ''transaction not successful''))))"
  by (simp add: transactMnemonicString_def test_env_def test_request_def test_config_def
      transactMnemonicString_callback_def isExtrinsicSuccess_def)

text \<open>
  Claim C4 states that a submission the node never includes in a block fails the call with
  the status, on both paths, and never leaves it pending. In the run below the node
  reports a signed submission as ready and then as dropped. The callback ignores both
  notifications, the promise is never settled and \<open>transactMnemonicString\<close> does not
  return.
\<close>

theorem transactMnemonicString_dropped_pending:
  "transactMnemonicString
     (test_env\<lparr>signAndSend := \<lambda>c k.
        [SubmittableResult [] Ready [7], SubmittableResult [] Dropped [7]]\<rparr>)
     (test_request (MnemonicString ''//Alice'')) =
   ([CreateFromUri (Some ''//Alice''),
     SignAndSend (Call ''5Bob'' 30) (KeyringPair ''//Alice'')],
    None)"
  by (simp add: transactMnemonicString_def test_env_def test_request_def test_config_def
      transactMnemonicString_callback_def)

subsection \<open>The bridge of transactSigned\<close>

text \<open>
  Among the notifications of a raw submission, those whose status is not "in block" leave
  the promise as it stands: the callback throws while it reads \<open>asInBlock\<close>. The first one
  in a block settles the call with the two hashes. A submission that is never in a block
  leaves the call pending.
\<close>

lemma transactSigned_first_inBlock:
  assumes "api e"
      and "transferSubmittable (transactionConfig req) = Some signedTx"
      and "signedTx \<noteq> []"
      and "api_tx e signedTx = Inr tx"
      and "submitAndWatchExtrinsic e tx = pre @ n # post"
      and "\<forall>m \<in> set pre. \<not> isInBlock (n_status m)"
      and "n_status n = InBlock h"
  shows "snd (transactSigned e req) =
           Some (Inr \<lparr>success = True, txHash = Some (toHex (n_hash n)),
                      blockHash = Some (toHex h)\<rparr>)"
proof -
  have skip: "\<forall>m \<in> set pre. fst (transactSigned_callback m Pending) = Pending"
    using assms(6) by (simp add: transactSigned_callback_ignores)
  have hit: "fst (transactSigned_callback n Pending) =
               Fulfilled \<lparr>tx_success = True, transactionHash = toHex (n_hash n),
                          blockhash = toHex h\<rparr>"
    using assms(7) by (simp add: transactSigned_callback_inBlock)
  then have "settled (fst (transactSigned_callback n Pending))"
    by simp
  from deliver_first_settles [of transactSigned_callback pre n post,
      OF transactSigned_callback_settled skip this]
  have "fst (deliver transactSigned_callback (submitAndWatchExtrinsic e tx) Pending) =
          fst (transactSigned_callback n Pending)"
    using assms(5) by simp
  with hit transactSigned_outcome [OF assms(1-4)] show ?thesis
    by simp
qed

lemma transactSigned_never_inBlock:
  assumes "api e"
      and "transferSubmittable (transactionConfig req) = Some signedTx"
      and "signedTx \<noteq> []"
      and "api_tx e signedTx = Inr tx"
      and "\<forall>m \<in> set (submitAndWatchExtrinsic e tx). \<not> isInBlock (n_status m)"
  shows "snd (transactSigned e req) = None"
proof -
  have "\<forall>m \<in> set (submitAndWatchExtrinsic e tx). fst (transactSigned_callback m Pending) = Pending"
    using assms(5) by (simp add: transactSigned_callback_ignores)
  then have "fst (deliver transactSigned_callback (submitAndWatchExtrinsic e tx) Pending) = Pending"
    by (rule deliver_never_settles)
  with transactSigned_outcome [OF assms(1-4)] show ?thesis
    by simp
qed

subsection \<open>Both bridges settle on the first inclusion\<close>

text \<open>
  Claim C5. On the keypair path and on the raw path alike, the notifications whose status
  is not "in block" (ready, broadcast and every other) change nothing: as long as no
  notification is in a block the call is neither resolved nor rejected, and the first
  notification in a block settles it, whatever came before and whatever comes after. On
  the keypair path the outcome is the success with the two hashes of that notification
  when its events hold \<open>system.ExtrinsicSuccess\<close> and the failure "transaction not
  successful" otherwise; on the raw path it is the success with the two hashes.
\<close>

theorem bridge_settles_on_first_inclusion:
  assumes "api e"
      and "createFromUri e (mnemonic_of (web3SigningCredential req)) = Inr pair"
      and "balances_transfer e (tc_to (transactionConfig req)) (tc_value (transactionConfig req))
             = Inr call"
      and "transferSubmittable (transactionConfig req') = Some signedTx"
      and "signedTx \<noteq> []"
      and "api_tx e signedTx = Inr tx"
  shows "(\<forall>pre n post h.
            signAndSend e call pair = pre @ n # post \<and>
            (\<forall>m \<in> set pre. \<not> isInBlock (res_status m)) \<and> res_status n = InBlock h \<longrightarrow>
            snd (transactMnemonicString e req) =
              (if \<exists>ev \<in> set (res_events n). isExtrinsicSuccess ev
               then Some (Inr \<lparr>success = True, txHash = Some (toHex (res_txHash n)),
                               blockHash = Some (toHex h)\<rparr>)
               else Some (Inl (TransactionFailed (Str ''transaction not successful''))))) \<and>
         ((\<forall>m \<in> set (signAndSend e call pair). \<not> isInBlock (res_status m)) \<longrightarrow>
            snd (transactMnemonicString e req) = None) \<and>
         (\<forall>pre n post h.
            submitAndWatchExtrinsic e tx = pre @ n # post \<and>
            (\<forall>m \<in> set pre. \<not> isInBlock (n_status m)) \<and> n_status n = InBlock h \<longrightarrow>
            snd (transactSigned e req') =
              Some (Inr \<lparr>success = True, txHash = Some (toHex (n_hash n)),
                         blockHash = Some (toHex h)\<rparr>)) \<and>
         ((\<forall>m \<in> set (submitAndWatchExtrinsic e tx). \<not> isInBlock (n_status m)) \<longrightarrow>
            snd (transactSigned e req') = None)"
  using transactMnemonicString_first_inBlock [OF assms(1-3)]
        transactMnemonicString_never_inBlock [OF assms(1-3)]
        transactSigned_first_inBlock [OF assms(1,4-6)]
        transactSigned_never_inBlock [OF assms(1,4-6)]
  by blast

theorem bridge_settles_on_first_inclusion_witness:
  "snd (transactMnemonicString test_env (test_request (MnemonicString ''//Alice''))) =
     Some (Inr \<lparr>success = True, txHash = Some (toHex [7]), blockHash = Some (toHex [1, 2])\<rparr>) \<and>
   snd (transactSigned test_env test_signed) =
     Some (Inr \<lparr>success = True, txHash = Some (toHex [9]), blockHash = Some (toHex [1, 2])\<rparr>)"
proof -
  let ?req = "test_request (MnemonicString ''//Alice'')"
  let ?tx = "Extrinsic True test_signature ''0x2d02''"
  let ?k1 = "SubmittableResult [] Ready [7]"
  let ?k2 = "SubmittableResult [EventRecord ''balances'' ''Transfer'',
                                EventRecord ''system'' ''ExtrinsicSuccess''] (InBlock [1, 2]) [7]"
  let ?k3 = "SubmittableResult [] (Finalized [1, 2]) [7]"
  let ?s1 = "StatusNotification Ready [8]"
  let ?s2 = "StatusNotification (InBlock [1, 2]) [9]"
  let ?s3 = "StatusNotification (Finalized [1, 2]) [10]"
  have a: "api test_env" by (simp add: test_env_def)
  have b: "createFromUri test_env (mnemonic_of (web3SigningCredential ?req)) =
             Inr (KeyringPair ''//Alice'')"
    by (simp add: test_env_def test_request_def)
  have c: "balances_transfer test_env (tc_to (transactionConfig ?req))
             (tc_value (transactionConfig ?req)) = Inr (Call ''5Bob'' 30)"
    by (simp add: test_env_def test_request_def test_config_def)
  have d: "transferSubmittable (transactionConfig test_signed) = Some ''0x2d02''"
    by (simp add: test_signed_def)
  have f: "''0x2d02'' \<noteq> []" by simp
  have g: "api_tx test_env ''0x2d02'' = Inr ?tx" by (simp add: test_env_def)
  have ks: "signAndSend test_env (Call ''5Bob'' 30) (KeyringPair ''//Alice'') = [?k1] @ ?k2 # [?k3]"
    by (simp add: test_env_def)
  have ss: "submitAndWatchExtrinsic test_env ?tx = [?s1] @ ?s2 # [?s3]"
    by (simp add: test_env_def)
  have kp: "\<forall>m \<in> set [?k1]. \<not> isInBlock (res_status m)" by simp
  have sp: "\<forall>m \<in> set [?s1]. \<not> isInBlock (n_status m)" by simp
  have kh: "res_status ?k2 = InBlock [1, 2]" and sh: "n_status ?s2 = InBlock [1, 2]" by simp_all
  have ev: "\<exists>ev \<in> set (res_events ?k2). isExtrinsicSuccess ev"
    by (simp add: isExtrinsicSuccess_def)
  note inst = bridge_settles_on_first_inclusion [OF a b c d f g]
  from inst ks kp kh
  have "snd (transactMnemonicString test_env ?req) =
          (if \<exists>ev \<in> set (res_events ?k2). isExtrinsicSuccess ev
           then Some (Inr \<lparr>success = True, txHash = Some (toHex (res_txHash ?k2)),
                           blockHash = Some (toHex [1, 2])\<rparr>)
           else Some (Inl (TransactionFailed (Str ''transaction not successful''))))"
    by blast
  with ev have k: "snd (transactMnemonicString test_env ?req) =
          Some (Inr \<lparr>success = True, txHash = Some (toHex [7]), blockHash = Some (toHex [1, 2])\<rparr>)"
    by simp
  from inst ss sp sh
  have "snd (transactSigned test_env test_signed) =
          Some (Inr \<lparr>success = True, txHash = Some (toHex (n_hash ?s2)),
                     blockHash = Some (toHex [1, 2])\<rparr>)"
    by blast
  with k show ?thesis by simp
qed

end
